theory Spec2Isabelle
  imports Complex_Main "HOL-Library.AList"
begin

section \<open>Python values\<close>

text \<open>
  A Python \<open>str\<close> is a sequence of Unicode code points, so it is modelled as a list of
  naturals; \<open>bytes\<close> is a list of 8-bit characters. \<open>lit\<close> turns an ASCII literal of the
  source into its code points.
\<close>

type_synonym pystr = "nat list"
type_synonym bytes = "char list"

definition lit :: "string \<Rightarrow> pystr" where
  "lit s = map of_char s"

definition nl :: pystr where
  "nl = [0x0A]"

text \<open>\<open>str.isspace\<close> for one code point: the whitespace table of CPython.\<close>

definition py_isspace :: "nat \<Rightarrow> bool" where
  "py_isspace c \<longleftrightarrow>
     (0x09 \<le> c \<and> c \<le> 0x0D) \<or> (0x1C \<le> c \<and> c \<le> 0x20) \<or> c = 0x85 \<or> c = 0xA0 \<or>
     c = 0x1680 \<or> (0x2000 \<le> c \<and> c \<le> 0x200A) \<or> c = 0x2028 \<or> c = 0x2029 \<or>
     c = 0x202F \<or> c = 0x205F \<or> c = 0x3000"

text \<open>\<open>s.strip()\<close>: leading and trailing whitespace removed.\<close>

definition py_strip :: "pystr \<Rightarrow> pystr" where
  "py_strip s = rev (dropWhile py_isspace (rev (dropWhile py_isspace s)))"

text \<open>
  \<open>s.lower()\<close> on the ASCII letters. The source applies it only under
  \<open>endswith('.pdf')\<close>; no code point outside ASCII lower-cases to one of the four
  characters of that suffix, so the test is the same as with the full Unicode mapping.
\<close>

definition py_lower :: "pystr \<Rightarrow> pystr" where
  "py_lower s = map (\<lambda>c. if 0x41 \<le> c \<and> c \<le> 0x5A then c + 0x20 else c) s"

definition py_startswith :: "pystr \<Rightarrow> pystr \<Rightarrow> bool" where
  "py_startswith s pre \<longleftrightarrow> take (length pre) s = pre"

definition py_endswith :: "pystr \<Rightarrow> pystr \<Rightarrow> bool" where
  "py_endswith s suf \<longleftrightarrow> length suf \<le> length s \<and> drop (length s - length suf) s = suf"

text \<open>\<open>sep.join(xs)\<close>.\<close>

fun py_join :: "pystr \<Rightarrow> pystr list \<Rightarrow> pystr" where
  "py_join sep [] = []"
| "py_join sep [x] = x"
| "py_join sep (x # y # ys) = x @ sep @ py_join sep (y # ys)"

text \<open>\<open>os.path.join(a, b)\<close> of \<open>posixpath\<close>, for two components.\<close>

definition os_path_join :: "pystr \<Rightarrow> pystr \<Rightarrow> pystr" where
  "os_path_join a b =
     (if py_startswith b (lit ''/'') then b
      else if a = [] \<or> py_endswith a (lit ''/'') then a @ b
      else a @ lit ''/'' @ b)"

section \<open>Data model\<close>

text \<open>One value of \<open>metadata["documents"]\<close>.\<close>

record doc_info =
  filename :: pystr
  uploaded_at :: pystr
  chunk_count :: int
  file_path :: pystr

text \<open>
  A \<open>Document\<close> of the vector store: the chunk text and its metadata dictionary.
  Dictionaries are association lists in insertion order, as Python keeps them.
\<close>

record document =
  page_content :: pystr
  metadata :: "(pystr \<times> pystr) list"

text \<open>What a path on disk holds: nothing, a file that cannot be loaded, or a value.\<close>

datatype 'a stored = Missing | Corrupt | Stored 'a

text \<open>
  The state a \<open>DocumentProcessor\<close> works on. \<open>documents\<close> is \<open>self.metadata["documents"]\<close>
  (document id to info), \<open>vector_store\<close> the documents of the in-memory FAISS docstore in
  insertion order, \<open>pdf_files\<close> the files of \<open>self.pdf_dir\<close> by name, \<open>metadata_file\<close> the
  JSON file and \<open>vector_dir\<close> the saved index. File operations on these always succeed.
\<close>

record processor =
  data_dir :: pystr
  documents :: "(pystr \<times> doc_info) list"
  vector_store :: "document list"
  pdf_files :: "(pystr \<times> bytes) list"
  metadata_file :: "(pystr \<times> doc_info) list stored"
  vector_dir :: "document list stored"

text \<open>The outcome of \<open>GenerativeModel(..).generate_content(prompt)\<close> followed by \<open>.text\<close>.\<close>

datatype llm_outcome = Call_Raises | Text_Raises | Text pystr

text \<open>
  The external collaborators, as deterministic functions: \<open>read_pdf\<close> is \<open>PdfReader\<close> with
  \<open>extract_text\<close> on every page (\<open>None\<close> when either raises; a page may have no text),
  \<open>split_text\<close> the \<open>RecursiveCharacterTextSplitter\<close> (size 1000, overlap 100),
  \<open>similarity_search_with_score\<close> the query embedding and index search over the stored
  documents (\<open>None\<close> when it raises), \<open>generate_content\<close> the remote model.
\<close>

record env =
  read_pdf :: "bytes \<Rightarrow> pystr option list option"
  split_text :: "pystr \<Rightarrow> pystr list"
  similarity_search_with_score :: "document list \<Rightarrow> pystr \<Rightarrow> int \<Rightarrow> (document \<times> real) list option"
  generate_content :: "pystr \<Rightarrow> pystr \<Rightarrow> llm_outcome"

text \<open>The remote calls an operation makes, in order.\<close>

datatype remote_call = Similarity_Search pystr int | Generate_Content pystr

section \<open>Document processor\<close>

definition placeholder_document :: document where
  "placeholder_document =
     \<lparr>page_content = lit ''placeholder content'',
      metadata = [(lit ''source'', lit ''placeholder''), (lit ''doc_id'', lit ''placeholder'')]\<rparr>"

text \<open>\<open>FAISS.from_texts\<close> and \<open>add_texts\<close>: one stored document per text.\<close>

definition from_texts :: "pystr list \<Rightarrow> (pystr \<times> pystr) list list \<Rightarrow> document list" where
  "from_texts texts metadatas =
     map (\<lambda>(t, m). \<lparr>page_content = t, metadata = m\<rparr>) (zip texts metadatas)"

definition add_texts :: "pystr list \<Rightarrow> (pystr \<times> pystr) list list \<Rightarrow> document list \<Rightarrow> document list" where
  "add_texts texts metadatas vs = vs @ from_texts texts metadatas"

definition load_metadata :: "(pystr \<times> doc_info) list stored \<Rightarrow> (pystr \<times> doc_info) list" where
  "load_metadata f = (case f of Stored docs \<Rightarrow> docs | Corrupt \<Rightarrow> [] | Missing \<Rightarrow> [])"

definition save_metadata :: "processor \<Rightarrow> processor" where
  "save_metadata s = s\<lparr>metadata_file := Stored (documents s)\<rparr>"

definition save_local :: "processor \<Rightarrow> processor" where
  "save_local s = s\<lparr>vector_dir := Stored (vector_store s)\<rparr>"

definition load_or_create_vector_store :: "document list stored \<Rightarrow> document list" where
  "load_or_create_vector_store d =
     (case d of
        Stored vs \<Rightarrow> vs
      | Corrupt \<Rightarrow> from_texts [lit ''placeholder content'']
                     [[(lit ''source'', lit ''placeholder''), (lit ''doc_id'', lit ''placeholder'')]]
      | Missing \<Rightarrow> from_texts [lit ''placeholder content'']
                     [[(lit ''source'', lit ''placeholder''), (lit ''doc_id'', lit ''placeholder'')]])"

text \<open>The page loop: \<open>raw_text += text\<close> for every page with a non-empty text.\<close>

fun extract_raw_text :: "pystr option list \<Rightarrow> pystr \<Rightarrow> pystr" where
  "extract_raw_text [] raw_text = raw_text"
| "extract_raw_text (text # pages) raw_text =
     extract_raw_text pages
       (case text of None \<Rightarrow> raw_text
        | Some t \<Rightarrow> if t \<noteq> [] then raw_text @ t else raw_text)"

text \<open>
  \<open>process_pdf\<close>. \<open>uuid4\<close> is the generated id and \<open>now\<close> the timestamp; the file is
  addressed in \<open>pdf_files\<close> by its name. The result is the returned flag and the new state.
  \<open>pdf_filename\<close> is the name the file is saved under.
\<close>

definition pdf_filename :: "pystr \<Rightarrow> pystr option \<Rightarrow> pystr" where
  "pdf_filename doc_id filename_arg =
     (case filename_arg of
        None \<Rightarrow> doc_id @ lit ''.pdf''
      | Some f \<Rightarrow>
          if f = [] then doc_id @ lit ''.pdf''
          else if \<not> py_endswith (py_lower f) (lit ''.pdf'') then f @ lit ''.pdf''
          else f)"

definition process_pdf ::
  "env \<Rightarrow> pystr \<Rightarrow> pystr \<Rightarrow> bytes \<Rightarrow> pystr option \<Rightarrow> processor \<Rightarrow> bool \<times> processor" where
  "process_pdf e uuid4 now pdf_file filename_arg s =
     (let doc_id = uuid4;
          fname = pdf_filename doc_id filename_arg;
          pdf_path = os_path_join (os_path_join (data_dir s) (lit ''pdfs'')) fname;
          s1 = s\<lparr>pdf_files := AList.update fname pdf_file (pdf_files s)\<rparr>
      in case read_pdf e pdf_file of
           None \<Rightarrow> (False, s1)
         | Some pages \<Rightarrow>
             (let raw_text = extract_raw_text pages [] in
              if py_strip raw_text = [] then (False, s1)
              else
                (let chunks = split_text e raw_text;
                     metadatas = map (\<lambda>_. [(lit ''source'', fname), (lit ''doc_id'', doc_id)]) chunks;
                     s2 = s1\<lparr>vector_store := add_texts chunks metadatas (vector_store s1)\<rparr>;
                     s3 = save_local s2;
                     s4 = s3\<lparr>documents :=
                            AList.update doc_id
                              \<lparr>filename = fname, uploaded_at = now,
                               chunk_count = int (length chunks), file_path = pdf_path\<rparr>
                              (documents s3)\<rparr>
                 in (True, save_metadata s4))))"

text \<open>
  \<open>search_documents\<close>: the filtered results and the remote calls made. Any exception of the
  similarity search is caught and gives the empty list.
\<close>

definition search_documents ::
  "env \<Rightarrow> pystr \<Rightarrow> int \<Rightarrow> processor \<Rightarrow> (document \<times> real) list \<times> remote_call list" where
  "search_documents e query k s =
     (if length (documents s) = 0 then ([], [])
      else
        (case similarity_search_with_score e (vector_store s) query k of
           None \<Rightarrow> ([], [Similarity_Search query k])
         | Some results \<Rightarrow>
             (filter (\<lambda>(doc, score). map_of (metadata doc) (lit ''doc_id'') \<noteq> Some (lit ''placeholder''))
                results,
              [Similarity_Search query k])))"

definition get_all_documents :: "processor \<Rightarrow> (pystr \<times> doc_info) list" where
  "get_all_documents s = documents s"

text \<open>One iteration of the loop of \<open>_rebuild_vector_store\<close>.\<close>

definition rebuild_document :: "env \<Rightarrow> pystr \<Rightarrow> doc_info \<Rightarrow> processor \<Rightarrow> processor" where
  "rebuild_document e doc_id info s =
     (let fname = filename info in
      case map_of (pdf_files s) fname of
        None \<Rightarrow> s
      | Some file_content \<Rightarrow>
          (case read_pdf e file_content of
             None \<Rightarrow> s
           | Some pages \<Rightarrow>
               (let raw_text = extract_raw_text pages [] in
                if py_strip raw_text = [] then s
                else
                  (let chunks = split_text e raw_text;
                       metadatas = map (\<lambda>_. [(lit ''source'', fname), (lit ''doc_id'', doc_id)]) chunks
                   in s\<lparr>vector_store := add_texts chunks metadatas (vector_store s),
                        documents :=
                          AList.map_entry doc_id (\<lambda>d. d\<lparr>chunk_count := int (length chunks)\<rparr>)
                            (documents s)\<rparr>))))"

fun rebuild_loop :: "env \<Rightarrow> (pystr \<times> doc_info) list \<Rightarrow> processor \<Rightarrow> processor" where
  "rebuild_loop e [] s = s"
| "rebuild_loop e ((doc_id, info) # items) s = rebuild_loop e items (rebuild_document e doc_id info s)"

definition rebuild_vector_store :: "env \<Rightarrow> processor \<Rightarrow> processor" where
  "rebuild_vector_store e s =
     (let s1 = s\<lparr>vector_store :=
                  from_texts [lit ''placeholder content'']
                    [[(lit ''source'', lit ''placeholder''), (lit ''doc_id'', lit ''placeholder'')]]\<rparr>;
          s2 = rebuild_loop e (documents s1) s1;
          s3 = save_local s2
      in save_metadata s3)"

text \<open>\<open>delete_document\<close>: the returned flag and the new state.\<close>

definition delete_document :: "env \<Rightarrow> pystr \<Rightarrow> processor \<Rightarrow> bool \<times> processor" where
  "delete_document e doc_id s =
     (case map_of (documents s) doc_id of
        Some info \<Rightarrow>
          (let fname = filename info;
               s1 = (if map_of (pdf_files s) fname \<noteq> None
                     then s\<lparr>pdf_files := AList.delete fname (pdf_files s)\<rparr> else s);
               s2 = s1\<lparr>documents := AList.delete doc_id (documents s1)\<rparr>;
               s3 = save_metadata s2
           in (True, rebuild_vector_store e s3))
      | None \<Rightarrow> (False, s))"

definition ensure_vector_store_populated :: "env \<Rightarrow> processor \<Rightarrow> processor" where
  "ensure_vector_store_populated e s =
     (let need_rebuild = False;
          need_rebuild =
            (if (documents s = [] \<and> map fst (pdf_files s) \<noteq> []) \<or> length (vector_store s) \<le> 1
             then True else need_rebuild);
          doc_count = length (documents s);
          need_rebuild =
            (if doc_count > 0 \<and> length (vector_store s) < doc_count + 1 then True else need_rebuild)
      in if need_rebuild then rebuild_vector_store e s else s)"

text \<open>The constructor, from what is on disk.\<close>

definition init ::
  "env \<Rightarrow> pystr \<Rightarrow> (pystr \<times> bytes) list \<Rightarrow> (pystr \<times> doc_info) list stored \<Rightarrow> document list stored
     \<Rightarrow> processor" where
  "init e dir files mfile vdir =
     ensure_vector_store_populated e
       \<lparr>data_dir = dir,
        documents = load_metadata mfile,
        vector_store = load_or_create_vector_store vdir,
        pdf_files = files,
        metadata_file = mfile,
        vector_dir = vdir\<rparr>"

section \<open>Chat engine\<close>

record chat_message =
  role :: pystr
  content :: pystr

record source_ref =
  ref_source :: pystr
  ref_score :: real
  ref_doc_id :: pystr

record chatbot =
  model_name :: pystr
  chat_history :: "chat_message list"

definition new_chatbot :: chatbot where
  "new_chatbot = \<lparr>model_name = lit ''gemini-1.5-pro'', chat_history = []\<rparr>"

definition no_information_message :: pystr where
  "no_information_message =
     lit (''I'' @ [CHR 0x27] @ ''m sorry, I couldn'' @ [CHR 0x27] @
          ''t find any relevant information in the compliance documents. '' @
          ''Please consider uploading relevant PDFs if they'' @ [CHR 0x27] @
          ''re not already in our system.'')"

definition error_response_message :: pystr where
  "error_response_message =
     lit (''I'' @ [CHR 0x27] @
          ''m sorry, I encountered an error while generating a response. Please try again later.'')"

definition system_instructions :: pystr where
  "system_instructions =
     nl @ lit ''        You are a compliance assistant for a financial institution. Your role is to provide accurate '' @
     nl @ lit (''        information based on the company'' @ [CHR 0x27] @
               ''s compliance documents. Answer the user'' @ [CHR 0x27] @ ''s query using ONLY the '') @
     nl @ lit ''        information provided in the context. If the answer is not in the provided context, say that you '' @
     nl @ lit (''        don'' @ [CHR 0x27] @
               ''t have enough information from the compliance documents to answer. Do not make up answers.'') @
     nl @ lit ''        Always cite the specific document source you used for your answer.'' @
     nl @ lit ''        ''"

definition full_prompt :: "pystr \<Rightarrow> pystr \<Rightarrow> pystr" where
  "full_prompt context_text query =
     nl @ lit ''        '' @ system_instructions @
     nl @ lit ''        '' @
     nl @ lit ''        Context information from compliance documents:'' @
     nl @ lit ''        '' @ context_text @
     nl @ lit ''        '' @
     nl @ lit ''        User question: '' @ query @
     nl @ lit ''        '' @
     nl @ lit ''        Please provide a response based only on the context information provided.'' @
     nl @ lit ''        ''"

text \<open>\<open>d.get(key, "Unknown")\<close> on a metadata dictionary.\<close>

definition get_or_unknown :: "(pystr \<times> pystr) list \<Rightarrow> pystr \<Rightarrow> pystr" where
  "get_or_unknown d key = (case map_of d key of Some v \<Rightarrow> v | None \<Rightarrow> lit ''Unknown'')"

text \<open>The prompt and the source list built from the search results.\<close>

definition rag_prompt :: "(document \<times> real) list \<Rightarrow> pystr \<Rightarrow> pystr" where
  "rag_prompt search_results query =
     (let contexts = map (\<lambda>(doc, score). page_content doc) search_results;
          context_text = py_join (nl @ nl) contexts
      in full_prompt context_text query)"

definition rag_sources :: "(document \<times> real) list \<Rightarrow> source_ref list" where
  "rag_sources search_results =
     map (\<lambda>(doc, score).
            \<lparr>ref_source = get_or_unknown (metadata doc) (lit ''source''),
             ref_score = score,
             ref_doc_id = get_or_unknown (metadata doc) (lit ''doc_id'')\<rparr>)
         search_results"

text \<open>\<open>self.chat_history[-20:]\<close> when the history has more than 20 entries.\<close>

definition limit_history :: "chat_message list \<Rightarrow> chat_message list" where
  "limit_history h = (if length h > 20 then drop (length h - 20) h else h)"

text \<open>
  \<open>generate_response\<close>: the returned pair, the chatbot afterwards and the remote calls made.
  Every exception inside the \<open>try\<close> block gives the fixed error message.
\<close>

definition generate_response ::
  "env \<Rightarrow> pystr \<Rightarrow> int \<Rightarrow> processor \<Rightarrow> chatbot
     \<Rightarrow> (pystr \<times> source_ref list) \<times> chatbot \<times> remote_call list" where
  "generate_response e query k dp cb =
     (let (search_results, calls) = search_documents e query k dp in
      if search_results = [] then ((no_information_message, []), cb, calls)
      else
        (let sources = rag_sources search_results;
             prompt = rag_prompt search_results query
         in case generate_content e (model_name cb) prompt of
              Text response_text \<Rightarrow>
                (let h = chat_history cb @
                           [\<lparr>role = lit ''user'', content = query\<rparr>,
                            \<lparr>role = lit ''assistant'', content = response_text\<rparr>]
                 in ((response_text, sources), cb\<lparr>chat_history := limit_history h\<rparr>,
                     calls @ [Generate_Content prompt]))
            | Call_Raises \<Rightarrow> ((error_response_message, []), cb, calls @ [Generate_Content prompt])
            | Text_Raises \<Rightarrow> ((error_response_message, []), cb, calls @ [Generate_Content prompt])))"

definition reset_chat_history :: "chatbot \<Rightarrow> chatbot" where
  "reset_chat_history cb = cb\<lparr>chat_history := []\<rparr>"


section \<open>What a rebuild computes\<close>

text \<open>
  The chunks a rebuild adds for a document: none when its file is missing, cannot be read
  or has only blank text.
\<close>

definition document_chunks :: "env \<Rightarrow> (pystr \<times> bytes) list \<Rightarrow> doc_info \<Rightarrow> pystr list option" where
  "document_chunks e files info =
     (case map_of files (filename info) of
        None \<Rightarrow> None
      | Some file_content \<Rightarrow>
          (case read_pdf e file_content of
             None \<Rightarrow> None
           | Some pages \<Rightarrow>
               if py_strip (extract_raw_text pages []) = [] then None
               else Some (split_text e (extract_raw_text pages []))))"

definition rebuilt_entries :: "env \<Rightarrow> (pystr \<times> bytes) list \<Rightarrow> pystr \<times> doc_info \<Rightarrow> document list" where
  "rebuilt_entries e files item =
     (case document_chunks e files (snd item) of
        None \<Rightarrow> []
      | Some chunks \<Rightarrow>
          from_texts chunks
            (map (\<lambda>_. [(lit ''source'', filename (snd item)), (lit ''doc_id'', fst item)]) chunks))"

definition refreshed_info :: "env \<Rightarrow> (pystr \<times> bytes) list \<Rightarrow> pystr \<times> doc_info \<Rightarrow> pystr \<times> doc_info" where
  "refreshed_info e files item =
     (case document_chunks e files (snd item) of
        None \<Rightarrow> item
      | Some chunks \<Rightarrow> (fst item, (snd item)\<lparr>chunk_count := int (length chunks)\<rparr>))"

text \<open>
  The two sides of the consistency invariant: the entries of the index besides the
  placeholder (the source counts the placeholder as one entry of the docstore), and the
  chunk counts of the metadata added up.
\<close>

definition populated_entry_count :: "document list \<Rightarrow> int" where
  "populated_entry_count vs = int (length vs) - 1"

definition aggregate_chunk_count :: "(pystr \<times> doc_info) list \<Rightarrow> int" where
  "aggregate_chunk_count docs = sum_list (map (\<lambda>item. chunk_count (snd item)) docs)"

text \<open>The index search returns stored documents only.\<close>

definition returns_stored_documents :: "env \<Rightarrow> bool" where
  "returns_stored_documents e \<longleftrightarrow>
     (\<forall>vs query k results.
        similarity_search_with_score e vs query k = Some results \<longrightarrow> fst ` set results \<subseteq> set vs)"

section \<open>Example inputs\<close>

definition example_info :: "string \<Rightarrow> int \<Rightarrow> doc_info" where
  "example_info name n =
     \<lparr>filename = lit name, uploaded_at = lit ''t0'', chunk_count = n,
      file_path = lit ''data/pdfs/'' @ lit name\<rparr>"

definition example_chunk :: "string \<Rightarrow> string \<Rightarrow> document" where
  "example_chunk name doc_id =
     \<lparr>page_content = lit ''text'',
      metadata = [(lit ''source'', lit name), (lit ''doc_id'', lit doc_id)]\<rparr>"

text \<open>Two documents of one chunk each, index and metadata in agreement.\<close>

definition example_processor :: processor where
  "example_processor =
     \<lparr>data_dir = lit ''data'',
      documents = [(lit ''d1'', example_info ''a.pdf'' 1), (lit ''d2'', example_info ''b.pdf'' 1)],
      vector_store = [placeholder_document, example_chunk ''a.pdf'' ''d1'', example_chunk ''b.pdf'' ''d2''],
      pdf_files = [(lit ''a.pdf'', ''%PDF''), (lit ''b.pdf'', ''%PDF'')],
      metadata_file =
        Stored [(lit ''d1'', example_info ''a.pdf'' 1), (lit ''d2'', example_info ''b.pdf'' 1)],
      vector_dir =
        Stored [placeholder_document, example_chunk ''a.pdf'' ''d1'', example_chunk ''b.pdf'' ''d2'']\<rparr>"

text \<open>
  An environment whose reader finds one page \<open>text\<close> in the file \<open>%PDF\<close> and a blank page
  in \<open>%BLANK\<close>, whose splitter makes one chunk of a text, whose index search returns the
  first \<open>k\<close> stored documents with score 0, and whose model gives the outcome \<open>llm\<close>.
\<close>

definition example_env :: "llm_outcome \<Rightarrow> env" where
  "example_env llm =
     \<lparr>read_pdf = (\<lambda>b. if b = ''%PDF'' then Some [Some (lit ''text'')]
                      else if b = ''%BLANK'' then Some [None, Some (lit '' '')] else None),
      split_text = (\<lambda>t. [t]),
      similarity_search_with_score = (\<lambda>vs q k. Some (map (\<lambda>d. (d, 0)) (take (nat k) vs))),
      generate_content = (\<lambda>m p. llm)\<rparr>"

text \<open>
  What the constructor may find on disk: one document recorded with three chunks, two of
  them in the saved index.
\<close>

definition stale_metadata :: "(pystr \<times> doc_info) list" where
  "stale_metadata = [(lit ''d1'', example_info ''a.pdf'' 3)]"

definition stale_index :: "document list" where
  "stale_index = [placeholder_document, example_chunk ''a.pdf'' ''d1'', example_chunk ''a.pdf'' ''d1'']"

text \<open>The state loaded from that metadata when no index was saved.\<close>

definition unindexed_processor :: processor where
  "unindexed_processor =
     \<lparr>data_dir = lit ''data'',
      documents = stale_metadata,
      vector_store = [placeholder_document],
      pdf_files = [(lit ''a.pdf'', ''%PDF'')],
      metadata_file = Stored stale_metadata,
      vector_dir = Missing\<rparr>"

section \<open>Properties of the string operations\<close>

lemma py_strip_empty_iff: "py_strip t = [] \<longleftrightarrow> (\<forall>c \<in> set t. py_isspace c)"
proof
  assume "py_strip t = []"
  then have all: "\<forall>c \<in> set (dropWhile py_isspace t). py_isspace c"
    by (simp add: py_strip_def dropWhile_eq_Nil_conv)
  have "dropWhile py_isspace t = []"
  proof (rule ccontr)
    assume ne: "dropWhile py_isspace t \<noteq> []"
    then have "\<not> py_isspace (hd (dropWhile py_isspace t))"
      by (rule hd_dropWhile)
    moreover from ne have "hd (dropWhile py_isspace t) \<in> set (dropWhile py_isspace t)"
      by simp
    ultimately show False using all by blast
  qed
  then show "\<forall>c \<in> set t. py_isspace c"
    by (simp add: dropWhile_eq_Nil_conv)
next
  assume "\<forall>c \<in> set t. py_isspace c"
  then have "dropWhile py_isspace t = []"
    by (simp add: dropWhile_eq_Nil_conv)
  then show "py_strip t = []"
    unfolding py_strip_def by (simp only: rev.simps dropWhile.simps)
qed

section \<open>Properties of the rebuild\<close>

lemma rebuild_document_chunks:
  "rebuild_document e doc_id info s =
     (case document_chunks e (pdf_files s) info of
        None \<Rightarrow> s
      | Some chunks \<Rightarrow>
          s\<lparr>vector_store := vector_store s @ rebuilt_entries e (pdf_files s) (doc_id, info),
            documents :=
              AList.map_entry doc_id (\<lambda>d. d\<lparr>chunk_count := int (length chunks)\<rparr>) (documents s)\<rparr>)"
  by (simp add: rebuild_document_def document_chunks_def rebuilt_entries_def add_texts_def Let_def
      split: option.splits)

lemma rebuild_document_frame:
  "pdf_files (rebuild_document e doc_id info s) = pdf_files s"
  "data_dir (rebuild_document e doc_id info s) = data_dir s"
  "metadata_file (rebuild_document e doc_id info s) = metadata_file s"
  "vector_dir (rebuild_document e doc_id info s) = vector_dir s"
  by (simp_all add: rebuild_document_chunks split: option.splits)

lemma rebuild_loop_frame:
  "pdf_files (rebuild_loop e items s) = pdf_files s \<and>
   data_dir (rebuild_loop e items s) = data_dir s \<and>
   metadata_file (rebuild_loop e items s) = metadata_file s \<and>
   vector_dir (rebuild_loop e items s) = vector_dir s"
  by (induction items arbitrary: s) (auto simp: rebuild_document_frame)

lemma rebuild_document_store:
  "vector_store (rebuild_document e doc_id info s) =
     vector_store s @ rebuilt_entries e (pdf_files s) (doc_id, info)"
  by (simp add: rebuild_document_chunks rebuilt_entries_def split: option.splits)

lemma rebuild_loop_store:
  "vector_store (rebuild_loop e items s) =
     vector_store s @ concat (map (rebuilt_entries e (pdf_files s)) items)"
  by (induction items arbitrary: s) (auto simp: rebuild_document_store rebuild_document_frame)

lemma map_fst_map_entry: "map fst (AList.map_entry k f xs) = map fst xs"
  by (induction xs) auto

lemma rebuild_document_keys:
  "map fst (documents (rebuild_document e doc_id info s)) = map fst (documents s)"
  by (simp add: rebuild_document_chunks map_fst_map_entry split: option.splits)

lemma rebuild_loop_keys:
  "map fst (documents (rebuild_loop e items s)) = map fst (documents s)"
  by (induction items arbitrary: s) (auto simp: rebuild_document_keys)

lemma map_entry_append_fresh:
  "k \<notin> fst ` set pre \<Longrightarrow> AList.map_entry k f (pre @ (k, v) # rest) = pre @ (k, f v) # rest"
  by (induction pre) auto

lemma rebuild_loop_documents:
  "distinct (map fst (pre @ items)) \<Longrightarrow> documents s = pre @ items \<Longrightarrow>
     documents (rebuild_loop e items s) = pre @ map (refreshed_info e (pdf_files s)) items"
proof (induction items arbitrary: pre s)
  case Nil
  then show ?case by simp
next
  case (Cons item items)
  obtain doc_id info where item: "item = (doc_id, info)"
    by (cases item)
  let ?s = "rebuild_document e doc_id info s"
  let ?item = "refreshed_info e (pdf_files s) (doc_id, info)"
  from Cons.prems item have fresh: "doc_id \<notin> fst ` set pre"
    by auto
  have docs: "documents ?s = (pre @ [?item]) @ items"
  proof (cases "document_chunks e (pdf_files s) info")
    case None
    then show ?thesis
      using Cons.prems(2) item by (simp add: rebuild_document_chunks refreshed_info_def)
  next
    case (Some chunks)
    then show ?thesis
      using Cons.prems(2) item fresh
      by (simp add: rebuild_document_chunks refreshed_info_def map_entry_append_fresh)
  qed
  have "fst ?item = doc_id"
    by (simp add: refreshed_info_def split: option.splits)
  with Cons.prems(1) item have dist: "distinct (map fst ((pre @ [?item]) @ items))"
    by simp
  from Cons.IH [OF dist docs] item show ?case
    by (simp add: rebuild_document_frame)
qed

lemma from_texts_placeholder:
  "from_texts [lit ''placeholder content'']
     [[(lit ''source'', lit ''placeholder''), (lit ''doc_id'', lit ''placeholder'')]] =
   [placeholder_document]"
  by (simp add: from_texts_def placeholder_document_def)

lemma rebuild_vector_store_store:
  "vector_store (rebuild_vector_store e s) =
     placeholder_document # concat (map (rebuilt_entries e (pdf_files s)) (documents s))"
  by (simp add: rebuild_vector_store_def Let_def save_local_def save_metadata_def
      rebuild_loop_store from_texts_placeholder)

lemma rebuild_vector_store_keys:
  "map fst (documents (rebuild_vector_store e s)) = map fst (documents s)"
  by (simp add: rebuild_vector_store_def Let_def save_local_def save_metadata_def rebuild_loop_keys)

lemma rebuild_vector_store_frame:
  "pdf_files (rebuild_vector_store e s) = pdf_files s \<and>
   data_dir (rebuild_vector_store e s) = data_dir s \<and>
   metadata_file (rebuild_vector_store e s) = Stored (documents (rebuild_vector_store e s)) \<and>
   vector_dir (rebuild_vector_store e s) = Stored (vector_store (rebuild_vector_store e s))"
  by (simp add: rebuild_vector_store_def Let_def save_local_def save_metadata_def rebuild_loop_frame)

lemma rebuild_vector_store_documents:
  "distinct (map fst (documents s)) \<Longrightarrow>
     documents (rebuild_vector_store e s) = map (refreshed_info e (pdf_files s)) (documents s)"
  using rebuild_loop_documents [of "[]" "documents s" "s\<lparr>vector_store := [placeholder_document]\<rparr>" e]
  by (simp add: rebuild_vector_store_def Let_def save_local_def save_metadata_def from_texts_placeholder)

lemma document_chunks_refreshed:
  "document_chunks e files (snd (refreshed_info e files item)) = document_chunks e files (snd item)"
  by (simp add: refreshed_info_def document_chunks_def split: option.splits)

lemma rebuilt_entries_refreshed:
  "rebuilt_entries e files (refreshed_info e files item) = rebuilt_entries e files item"
proof -
  have "fst (refreshed_info e files item) = fst item"
    "filename (snd (refreshed_info e files item)) = filename (snd item)"
    by (simp_all add: refreshed_info_def split: option.splits)
  then show ?thesis
    by (simp add: rebuilt_entries_def document_chunks_refreshed split: option.splits)
qed

lemma refreshed_info_idem:
  "refreshed_info e files (refreshed_info e files item) = refreshed_info e files item"
proof (cases "document_chunks e files (snd item)")
  case None
  then show ?thesis by (simp add: refreshed_info_def)
next
  case (Some chunks)
  have "document_chunks e files (snd (refreshed_info e files item)) = Some chunks"
    using Some by (simp add: document_chunks_refreshed)
  then show ?thesis
    using Some by (simp add: refreshed_info_def)
qed

lemma length_rebuilt_entries:
  "int (length (rebuilt_entries e files item)) =
     (case document_chunks e files (snd item) of None \<Rightarrow> 0
      | Some chunks \<Rightarrow> chunk_count (snd (refreshed_info e files item)))"
  by (simp add: rebuilt_entries_def refreshed_info_def from_texts_def split: option.splits)

lemma rebuilt_entries_source:
  assumes "d \<in> set (rebuilt_entries e files item)"
  shows "map_of (metadata d) (lit ''source'') = Some (filename (snd item)) \<and>
         map_of files (filename (snd item)) \<noteq> None"
proof (cases "document_chunks e files (snd item)")
  case None
  with assms show ?thesis
    by (simp add: rebuilt_entries_def)
next
  case (Some chunks)
  then have "map_of files (filename (snd item)) \<noteq> None"
    by (auto simp: document_chunks_def split: option.splits)
  moreover from assms Some have "metadata d = [(lit ''source'', filename (snd item)), (lit ''doc_id'', fst item)]"
    by (auto simp: rebuilt_entries_def from_texts_def set_zip)
  ultimately show ?thesis by simp
qed

section \<open>Properties of deletion\<close>

lemma delete_document_known:
  assumes "map_of (documents s) doc_id = Some info"
  shows "delete_document e doc_id s =
     (True,
      rebuild_vector_store e
        (s\<lparr>pdf_files := AList.delete (filename info) (pdf_files s),
           documents := AList.delete doc_id (documents s),
           metadata_file := Stored (AList.delete doc_id (documents s))\<rparr>))"
proof (cases "map_of (pdf_files s) (filename info)")
  case None
  then have "AList.delete (filename info) (pdf_files s) = pdf_files s"
    by (simp add: map_of_eq_None_iff)
  with None assms show ?thesis
    by (simp add: delete_document_def Let_def save_metadata_def)
next
  case (Some file_content)
  with assms show ?thesis
    by (simp add: delete_document_def Let_def save_metadata_def)
qed

lemma delete_document_unknown:
  "map_of (documents s) doc_id = None \<Longrightarrow> delete_document e doc_id s = (False, s)"
  by (simp add: delete_document_def)

section \<open>Evaluating the examples\<close>

lemma example_returns_stored: "returns_stored_documents (example_env llm)"
  by (auto simp: returns_stored_documents_def example_env_def dest: in_set_takeD)

lemma example_search_2:
  "search_documents (example_env llm) (lit ''q'') 2 example_processor =
     ([(example_chunk ''a.pdf'' ''d1'', 0)], [Similarity_Search (lit ''q'') 2])"
  by (simp add: search_documents_def example_env_def example_processor_def example_chunk_def
      placeholder_document_def lit_def)

lemma example_search_1:
  "search_documents (example_env llm) (lit ''q'') 1 example_processor =
     ([], [Similarity_Search (lit ''q'') 1])"
  by (simp add: search_documents_def example_env_def example_processor_def example_chunk_def
      placeholder_document_def lit_def)

lemma example_delete:
  "delete_document (example_env llm) (lit ''d1'') example_processor =
     (True,
      example_processor
        \<lparr>documents := [(lit ''d2'', example_info ''b.pdf'' 1)],
         vector_store := [placeholder_document, example_chunk ''b.pdf'' ''d2''],
         pdf_files := [(lit ''b.pdf'', ''%PDF'')],
         metadata_file := Stored [(lit ''d2'', example_info ''b.pdf'' 1)],
         vector_dir := Stored [placeholder_document, example_chunk ''b.pdf'' ''d2'']\<rparr>)"
  by (simp add: delete_document_def rebuild_vector_store_def rebuild_document_def Let_def
      save_metadata_def save_local_def add_texts_def from_texts_def py_strip_def py_isspace_def
      example_env_def example_processor_def example_chunk_def example_info_def
      placeholder_document_def lit_def)

lemma example_rebuild_unindexed:
  "rebuild_vector_store (example_env llm) unindexed_processor =
     unindexed_processor
       \<lparr>documents := [(lit ''d1'', example_info ''a.pdf'' 1)],
        vector_store := [placeholder_document, example_chunk ''a.pdf'' ''d1''],
        metadata_file := Stored [(lit ''d1'', example_info ''a.pdf'' 1)],
        vector_dir := Stored [placeholder_document, example_chunk ''a.pdf'' ''d1'']\<rparr>"
  by (simp add: rebuild_vector_store_def rebuild_document_def Let_def
      save_metadata_def save_local_def add_texts_def from_texts_def py_strip_def py_isspace_def
      example_env_def unindexed_processor_def stale_metadata_def example_chunk_def example_info_def
      placeholder_document_def lit_def)

lemma example_init_stale:
  "init (example_env llm) (lit ''data'') [(lit ''a.pdf'', ''%PDF'')]
         (Stored stale_metadata) (Stored stale_index) =
       \<lparr>data_dir = lit ''data'', documents = stale_metadata, vector_store = stale_index,
        pdf_files = [(lit ''a.pdf'', ''%PDF'')], metadata_file = Stored stale_metadata,
        vector_dir = Stored stale_index\<rparr>"
  by (simp add: init_def ensure_vector_store_populated_def load_metadata_def
      load_or_create_vector_store_def stale_metadata_def stale_index_def)

section \<open>The claims of the specification\<close>

text \<open>
  C1, as the code has it. The constructor ends with \<open>ensure_vector_store_populated\<close> on the
  loaded state. It rebuilds exactly when the metadata is empty while the PDF directory has
  files, or the index holds at most one entry, or there are documents and the index holds
  fewer entries than documents plus one; otherwise the state stays as loaded. After a
  rebuild the populated-entry count is the sum of the chunk counts of the documents that
  could be indexed, which is the aggregate chunk count when every document could be.
\<close>

theorem ensure_vector_store_populated_rebuilds:
  "ensure_vector_store_populated e s =
     (if (documents s = [] \<and> pdf_files s \<noteq> []) \<or> length (vector_store s) \<le> 1 \<or>
         (documents s \<noteq> [] \<and> length (vector_store s) < length (documents s) + 1)
      then rebuild_vector_store e s else s) \<and>
   (distinct (map fst (documents s)) \<longrightarrow>
      populated_entry_count (vector_store (rebuild_vector_store e s)) =
        (\<Sum>item\<leftarrow>documents (rebuild_vector_store e s).
           if document_chunks e (pdf_files s) (snd item) = None then 0 else chunk_count (snd item))) \<and>
   (distinct (map fst (documents s)) \<and>
    (\<forall>item \<in> set (documents s). document_chunks e (pdf_files s) (snd item) \<noteq> None) \<longrightarrow>
      populated_entry_count (vector_store (rebuild_vector_store e s)) =
        aggregate_chunk_count (documents (rebuild_vector_store e s)))"
proof (intro conjI impI)
  show "ensure_vector_store_populated e s =
     (if (documents s = [] \<and> pdf_files s \<noteq> []) \<or> length (vector_store s) \<le> 1 \<or>
         (documents s \<noteq> [] \<and> length (vector_store s) < length (documents s) + 1)
      then rebuild_vector_store e s else s)"
    by (simp add: ensure_vector_store_populated_def)
next
  have len: "int (length (concat (map (rebuilt_entries e files) docs))) =
      (\<Sum>item\<leftarrow>map (refreshed_info e files) docs.
         if document_chunks e files (snd item) = None then 0 else chunk_count (snd item))"
    for files docs
    by (induction docs)
       (auto simp: length_rebuilt_entries document_chunks_refreshed split: option.splits)
  {
    assume dist: "distinct (map fst (documents s))"
    show sum: "populated_entry_count (vector_store (rebuild_vector_store e s)) =
        (\<Sum>item\<leftarrow>documents (rebuild_vector_store e s).
           if document_chunks e (pdf_files s) (snd item) = None then 0 else chunk_count (snd item))"
      by (simp add: populated_entry_count_def rebuild_vector_store_store
          rebuild_vector_store_documents [OF dist] len)
  }
  note sum = this
  {
    assume a: "distinct (map fst (documents s)) \<and>
      (\<forall>item \<in> set (documents s). document_chunks e (pdf_files s) (snd item) \<noteq> None)"
    then have dist: "distinct (map fst (documents s))" by simp
    have "\<forall>item \<in> set (documents (rebuild_vector_store e s)).
            document_chunks e (pdf_files s) (snd item) \<noteq> None"
      using a by (auto simp: rebuild_vector_store_documents [OF dist] document_chunks_refreshed)
    then have "(\<Sum>item\<leftarrow>documents (rebuild_vector_store e s).
           if document_chunks e (pdf_files s) (snd item) = None then 0 else chunk_count (snd item)) =
        aggregate_chunk_count (documents (rebuild_vector_store e s))"
      unfolding aggregate_chunk_count_def
      by (intro arg_cong [where f = sum_list] map_cong) auto
    with sum [OF dist]
    show "populated_entry_count (vector_store (rebuild_vector_store e s)) =
        aggregate_chunk_count (documents (rebuild_vector_store e s))"
      by simp
  }
qed

theorem ensure_vector_store_populated_rebuilds_witness:
  "distinct (map fst (documents unindexed_processor)) \<and>
   list_all (\<lambda>item. document_chunks (example_env Call_Raises) (pdf_files unindexed_processor) (snd item)
                      \<noteq> None)
     (documents unindexed_processor) \<and>
   length (vector_store unindexed_processor) \<le> 1 \<and>
   ensure_vector_store_populated (example_env Call_Raises) unindexed_processor =
     rebuild_vector_store (example_env Call_Raises) unindexed_processor \<and>
   populated_entry_count
     (vector_store (ensure_vector_store_populated (example_env Call_Raises) unindexed_processor)) = 1 \<and>
   aggregate_chunk_count
     (documents (ensure_vector_store_populated (example_env Call_Raises) unindexed_processor)) = 1"
proof -
  have d: "distinct (map fst (documents unindexed_processor))"
    by (simp add: unindexed_processor_def stale_metadata_def)
  have c: "\<forall>item \<in> set (documents unindexed_processor).
      document_chunks (example_env Call_Raises) (pdf_files unindexed_processor) (snd item) \<noteq> None"
    by (simp add: unindexed_processor_def stale_metadata_def document_chunks_def example_env_def
        example_info_def py_strip_def py_isspace_def lit_def)
  have l: "length (vector_store unindexed_processor) \<le> 1"
    by (simp add: unindexed_processor_def)
  have p: "populated_entry_count
     (vector_store (rebuild_vector_store (example_env Call_Raises) unindexed_processor)) = 1"
    by (simp add: example_rebuild_unindexed populated_entry_count_def)
  from ensure_vector_store_populated_rebuilds [of "example_env Call_Raises" unindexed_processor] d c l p
  show ?thesis by (simp add: list_all_iff)
qed

text \<open>
  C1 as stated fails: the constructor finds metadata recording three chunks and an index
  with two populated entries, does not rebuild, and leaves the two counts different.
\<close>

theorem init_count_mismatch_counterexample:
  "populated_entry_count (load_or_create_vector_store (Stored stale_index)) \<noteq>
     aggregate_chunk_count (load_metadata (Stored stale_metadata)) \<and>
   vector_store (init (example_env Call_Raises) (lit ''data'') [(lit ''a.pdf'', ''%PDF'')]
                   (Stored stale_metadata) (Stored stale_index)) = stale_index \<and>
   populated_entry_count
     (vector_store (init (example_env Call_Raises) (lit ''data'') [(lit ''a.pdf'', ''%PDF'')]
                      (Stored stale_metadata) (Stored stale_index))) = 2 \<and>
   aggregate_chunk_count
     (documents (init (example_env Call_Raises) (lit ''data'') [(lit ''a.pdf'', ''%PDF'')]
                   (Stored stale_metadata) (Stored stale_index))) = 3"
  by (simp add: example_init_stale)
     (simp add: populated_entry_count_def aggregate_chunk_count_def load_metadata_def
        load_or_create_vector_store_def stale_index_def stale_metadata_def example_info_def)

text \<open>
  C2. When the text extracted from the uploaded file is empty or whitespace only,
  \<open>process_pdf\<close> returns \<open>False\<close> and the state differs from the one before only in the
  saved file: the vector index, the metadata and what is persisted of both are unchanged.
\<close>

theorem process_pdf_blank_text:
  assumes "read_pdf e pdf_file = Some pages"
    and "\<forall>c \<in> set (extract_raw_text pages []). py_isspace c"
  shows "process_pdf e uuid4 now pdf_file filename_arg s =
           (False, s\<lparr>pdf_files := AList.update (pdf_filename uuid4 filename_arg) pdf_file (pdf_files s)\<rparr>) \<and>
         vector_store (snd (process_pdf e uuid4 now pdf_file filename_arg s)) = vector_store s \<and>
         documents (snd (process_pdf e uuid4 now pdf_file filename_arg s)) = documents s"
proof -
  from assms(2) have "py_strip (extract_raw_text pages []) = []"
    by (simp add: py_strip_empty_iff)
  with assms(1) show ?thesis
    by (simp add: process_pdf_def Let_def)
qed

theorem process_pdf_blank_text_witness:
  "read_pdf (example_env Call_Raises) ''%BLANK'' = Some [None, Some (lit '' '')] \<and>
   list_all py_isspace (extract_raw_text [None, Some (lit '' '')] []) \<and>
   process_pdf (example_env Call_Raises) (lit ''d3'') (lit ''t1'') ''%BLANK'' (Some (lit ''c'')) example_processor =
     (False, example_processor\<lparr>pdf_files :=
        [(lit ''a.pdf'', ''%PDF''), (lit ''b.pdf'', ''%PDF''), (lit ''c.pdf'', ''%BLANK'')]\<rparr>)"
proof -
  have r: "read_pdf (example_env Call_Raises) ''%BLANK'' = Some [None, Some (lit '' '')]"
    by (simp add: example_env_def)
  have b: "\<forall>c \<in> set (extract_raw_text [None, Some (lit '' '')] []). py_isspace c"
    by (simp add: lit_def py_isspace_def)
  have n: "pdf_filename (lit ''d3'') (Some (lit ''c'')) = lit ''c.pdf''"
    by (simp add: pdf_filename_def py_endswith_def py_lower_def lit_def)
  have u: "AList.update (lit ''c.pdf'') ''%BLANK'' (pdf_files example_processor) =
      [(lit ''a.pdf'', ''%PDF''), (lit ''b.pdf'', ''%PDF''), (lit ''c.pdf'', ''%BLANK'')]"
    by (simp add: example_processor_def lit_def)
  from process_pdf_blank_text [OF r b, of "lit ''d3''" "lit ''t1''" "Some (lit ''c'')" example_processor]
    r b n u
  show ?thesis by (simp add: list_all_iff)
qed

text \<open>
  C3. Given an index search that returns stored documents only, after
  \<open>delete_document\<close> of a known id no result of \<open>search_documents\<close>, for any query and any
  \<open>k\<close> (so for every \<open>k \<ge> 1\<close>), has the deleted document's file name as its source.
\<close>

theorem search_after_delete_excludes_file:
  assumes "map_of (documents s) doc_id = Some info"
    and "returns_stored_documents e"
  shows "\<forall>r \<in> set (fst (search_documents e query k (snd (delete_document e doc_id s)))).
           map_of (metadata (fst r)) (lit ''source'') \<noteq> Some (filename info)"
proof
  fix r
  let ?files = "AList.delete (filename info) (pdf_files s)"
  let ?s = "snd (delete_document e doc_id s)"
  assume r: "r \<in> set (fst (search_documents e query k ?s))"
  have gone: "map_of ?files (filename info) = None"
    by (simp add: delete_conv')
  define s0 where "s0 = s\<lparr>pdf_files := ?files, documents := AList.delete doc_id (documents s),
    metadata_file := Stored (AList.delete doc_id (documents s))\<rparr>"
  have files: "pdf_files s0 = ?files"
    by (simp add: s0_def)
  have s: "?s = rebuild_vector_store e s0"
    by (simp add: delete_document_known [OF assms(1)] s0_def)
  from r obtain results where
    res: "similarity_search_with_score e (vector_store ?s) query k = Some results"
    and mem: "r \<in> set results"
    and np: "map_of (metadata (fst r)) (lit ''doc_id'') \<noteq> Some (lit ''placeholder'')"
    by (auto simp: search_documents_def split: if_splits option.splits)
  from assms(2) res mem have "fst r \<in> set (vector_store ?s)"
    unfolding returns_stored_documents_def by blast
  moreover from np have "fst r \<noteq> placeholder_document"
    by (auto simp: placeholder_document_def lit_def)
  ultimately obtain item where "item \<in> set (documents s0)"
    and entry: "fst r \<in> set (rebuilt_entries e ?files item)"
    by (auto simp: s rebuild_vector_store_store files)
  from rebuilt_entries_source [OF entry]
  have src: "map_of (metadata (fst r)) (lit ''source'') = Some (filename (snd item))"
    and "map_of ?files (filename (snd item)) \<noteq> None"
    by simp_all
  with gone have "filename (snd item) \<noteq> filename info"
    by auto
  with src show "map_of (metadata (fst r)) (lit ''source'') \<noteq> Some (filename info)"
    by simp
qed

theorem search_after_delete_excludes_file_witness:
  "map_of (documents example_processor) (lit ''d1'') = Some (example_info ''a.pdf'' 1) \<and>
   returns_stored_documents (example_env Call_Raises) \<and>
   (3::int) \<ge> 1 \<and>
   fst (search_documents (example_env Call_Raises) (lit ''q'') 3
          (snd (delete_document (example_env Call_Raises) (lit ''d1'') example_processor))) =
     [(example_chunk ''b.pdf'' ''d2'', 0)] \<and>
   map_of (metadata (example_chunk ''b.pdf'' ''d2'')) (lit ''source'') \<noteq>
     Some (filename (example_info ''a.pdf'' 1))"
proof -
  have m: "map_of (documents example_processor) (lit ''d1'') = Some (example_info ''a.pdf'' 1)"
    by (simp add: example_processor_def)
  have f: "fst (search_documents (example_env Call_Raises) (lit ''q'') 3
          (snd (delete_document (example_env Call_Raises) (lit ''d1'') example_processor))) =
     [(example_chunk ''b.pdf'' ''d2'', 0)]"
    by (simp add: example_delete)
       (simp add: search_documents_def example_env_def example_processor_def example_chunk_def
          placeholder_document_def lit_def)
  from search_after_delete_excludes_file [OF m example_returns_stored [of Call_Raises],
      where query = "lit ''q''" and k = 3]
  have "\<forall>r \<in> set [(example_chunk ''b.pdf'' ''d2'', 0::real)].
          map_of (metadata (fst r)) (lit ''source'') \<noteq> Some (filename (example_info ''a.pdf'' 1))"
    by (simp only: f)
  with m f example_returns_stored show ?thesis by simp
qed

text \<open>
  C4. No result of \<open>search_documents\<close> carries the placeholder document id, whatever the
  query and \<open>k\<close>, and whatever the index search returned: the placeholder is filtered out
  before the results are returned.
\<close>

theorem search_documents_no_placeholder:
  "\<forall>r \<in> set (fst (search_documents e query k s)).
     map_of (metadata (fst r)) (lit ''doc_id'') \<noteq> Some (lit ''placeholder'') \<and>
     fst r \<noteq> placeholder_document"
  by (auto simp: search_documents_def placeholder_document_def lit_def split: option.splits)

theorem search_documents_no_placeholder_witness:
  "similarity_search_with_score (example_env Call_Raises) (vector_store example_processor) (lit ''q'') 2 =
     Some [(placeholder_document, 0), (example_chunk ''a.pdf'' ''d1'', 0)] \<and>
   (example_chunk ''a.pdf'' ''d1'', 0) \<in>
     set (fst (search_documents (example_env Call_Raises) (lit ''q'') 2 example_processor)) \<and>
   map_of (metadata (example_chunk ''a.pdf'' ''d1'')) (lit ''doc_id'') \<noteq> Some (lit ''placeholder'')"
proof -
  have raw: "similarity_search_with_score (example_env Call_Raises) (vector_store example_processor)
      (lit ''q'') 2 = Some [(placeholder_document, 0), (example_chunk ''a.pdf'' ''d1'', 0)]"
    by (simp add: example_env_def example_processor_def)
  have m: "(example_chunk ''a.pdf'' ''d1'', 0) \<in>
      set (fst (search_documents (example_env Call_Raises) (lit ''q'') 2 example_processor))"
    by (simp add: example_search_2)
  from search_documents_no_placeholder [of "example_env Call_Raises" "lit ''q''" 2 example_processor] m
  have "map_of (metadata (fst (example_chunk ''a.pdf'' ''d1'', 0::real))) (lit ''doc_id'') \<noteq>
      Some (lit ''placeholder'')"
    by blast
  with raw m show ?thesis by simp
qed

text \<open>
  C5. With no document in the metadata, \<open>search_documents\<close> returns the empty list and
  makes no remote call: neither the query embedding nor the index search is reached.
\<close>

theorem search_documents_empty_metadata:
  "documents s = [] \<Longrightarrow> search_documents e query k s = ([], [])"
  by (simp add: search_documents_def)

theorem search_documents_empty_metadata_witness:
  "documents (example_processor\<lparr>documents := []\<rparr>) = [] \<and>
   vector_store (example_processor\<lparr>documents := []\<rparr>) \<noteq> [placeholder_document] \<and>
   search_documents (example_env Call_Raises) (lit ''q'') 2 (example_processor\<lparr>documents := []\<rparr>) = ([], [])"
  using search_documents_empty_metadata
    [of "example_processor\<lparr>documents := []\<rparr>" "example_env Call_Raises" "lit ''q''" 2]
  by (simp add: example_processor_def)

lemma search_calls_no_llm: "Generate_Content p \<notin> set (snd (search_documents e query k s))"
  by (simp add: search_documents_def split: option.splits)

text \<open>
  C6. When the search gives no result, \<open>generate_response\<close> returns the fixed
  no-information message with an empty source list, leaves the chatbot as it was, and its
  remote calls contain no call of the model.
\<close>

theorem generate_response_no_results:
  "fst (search_documents e query k dp) = [] \<Longrightarrow>
     fst (generate_response e query k dp cb) = (no_information_message, []) \<and>
     fst (snd (generate_response e query k dp cb)) = cb \<and>
     (\<forall>p. Generate_Content p \<notin> set (snd (snd (generate_response e query k dp cb))))"
  using search_calls_no_llm [of _ e query k dp]
  by (simp add: generate_response_def case_prod_beta)

theorem generate_response_no_results_witness:
  "fst (search_documents (example_env (Text (lit ''hi''))) (lit ''q'') 1 example_processor) = [] \<and>
   generate_response (example_env (Text (lit ''hi''))) (lit ''q'') 1 example_processor new_chatbot =
     ((no_information_message, []), new_chatbot, [Similarity_Search (lit ''q'') 1])"
proof -
  have e: "fst (search_documents (example_env (Text (lit ''hi''))) (lit ''q'') 1 example_processor) = []"
    by (simp add: example_search_1)
  have c: "snd (snd (generate_response (example_env (Text (lit ''hi''))) (lit ''q'') 1
             example_processor new_chatbot)) = [Similarity_Search (lit ''q'') 1]"
    by (simp add: generate_response_def example_search_1)
  from generate_response_no_results [OF e, of new_chatbot] e c show ?thesis
    by (simp add: prod_eq_iff)
qed

text \<open>
  C7. When the search gives results and the call of the remote model fails, either in the
  call or in reading the text of its response, \<open>generate_response\<close> returns the fixed error
  message with an empty source list; it returns normally, nothing is raised.
\<close>

theorem generate_response_llm_failure:
  "fst (search_documents e query k dp) \<noteq> [] \<Longrightarrow>
   generate_content e (model_name cb) (rag_prompt (fst (search_documents e query k dp)) query)
     \<in> {Call_Raises, Text_Raises} \<Longrightarrow>
     fst (generate_response e query k dp cb) = (error_response_message, [])"
  by (auto simp: generate_response_def case_prod_beta Let_def)

theorem generate_response_llm_failure_witness:
  "fst (search_documents (example_env Text_Raises) (lit ''q'') 2 example_processor) \<noteq> [] \<and>
   generate_content (example_env Text_Raises) (model_name new_chatbot)
     (rag_prompt (fst (search_documents (example_env Text_Raises) (lit ''q'') 2 example_processor))
        (lit ''q'')) = Text_Raises \<and>
   fst (generate_response (example_env Text_Raises) (lit ''q'') 2 example_processor new_chatbot) =
     (error_response_message, [])"
proof -
  have n: "fst (search_documents (example_env Text_Raises) (lit ''q'') 2 example_processor) \<noteq> []"
    by (simp add: example_search_2)
  have g: "generate_content (example_env Text_Raises) m p = Text_Raises" for m p
    by (simp add: example_env_def)
  from generate_response_llm_failure [OF n, of new_chatbot] n g show ?thesis
    by simp
qed

text \<open>
  C8. \<open>delete_document\<close> returns \<open>False\<close> exactly when the id is not in the metadata, and
  then changes nothing. For a known id it returns \<open>True\<close>, and the state is the full rebuild
  of the state with the PDF file removed (whether or not it was there), the metadata entry
  removed and the metadata persisted: afterwards the file and the entry are gone, and the
  metadata file holds the metadata.
\<close>

theorem delete_document_result:
  "(\<not> fst (delete_document e doc_id s) \<longleftrightarrow> doc_id \<notin> fst ` set (documents s)) \<and>
   (doc_id \<notin> fst ` set (documents s) \<longrightarrow> snd (delete_document e doc_id s) = s) \<and>
   (\<forall>info. map_of (documents s) doc_id = Some info \<longrightarrow>
      fst (delete_document e doc_id s) \<and>
      snd (delete_document e doc_id s) =
        rebuild_vector_store e
          (s\<lparr>pdf_files := AList.delete (filename info) (pdf_files s),
             documents := AList.delete doc_id (documents s),
             metadata_file := Stored (AList.delete doc_id (documents s))\<rparr>) \<and>
      map_of (pdf_files (snd (delete_document e doc_id s))) (filename info) = None \<and>
      doc_id \<notin> fst ` set (documents (snd (delete_document e doc_id s))) \<and>
      metadata_file (snd (delete_document e doc_id s)) =
        Stored (documents (snd (delete_document e doc_id s))) \<and>
      vector_store (snd (delete_document e doc_id s)) =
        placeholder_document #
        concat (map (rebuilt_entries e (AList.delete (filename info) (pdf_files s)))
                  (AList.delete doc_id (documents s))))"
proof (intro conjI allI impI)
  show "(\<not> fst (delete_document e doc_id s)) = (doc_id \<notin> fst ` set (documents s))"
    by (cases "map_of (documents s) doc_id")
       (auto simp: delete_document_known delete_document_unknown map_of_eq_None_iff [symmetric])
next
  assume "doc_id \<notin> fst ` set (documents s)"
  then show "snd (delete_document e doc_id s) = s"
    by (simp add: delete_document_unknown map_of_eq_None_iff)
next
  fix info
  assume known: "map_of (documents s) doc_id = Some info"
  let ?s0 = "s\<lparr>pdf_files := AList.delete (filename info) (pdf_files s),
             documents := AList.delete doc_id (documents s),
             metadata_file := Stored (AList.delete doc_id (documents s))\<rparr>"
  note del = delete_document_known [OF known, of e]
  show "fst (delete_document e doc_id s)"
    by (simp add: del)
  show "snd (delete_document e doc_id s) = rebuild_vector_store e ?s0"
    by (simp add: del)
  show "map_of (pdf_files (snd (delete_document e doc_id s))) (filename info) = None"
    by (simp add: del rebuild_vector_store_frame delete_conv')
  have "set (map fst (documents (rebuild_vector_store e ?s0))) = set (map fst (documents ?s0))"
    by (simp only: rebuild_vector_store_keys)
  then show "doc_id \<notin> fst ` set (documents (snd (delete_document e doc_id s)))"
    by (simp add: del delete_notin_dom)
  show "metadata_file (snd (delete_document e doc_id s)) =
        Stored (documents (snd (delete_document e doc_id s)))"
    by (simp add: del rebuild_vector_store_frame)
  show "vector_store (snd (delete_document e doc_id s)) =
        placeholder_document #
        concat (map (rebuilt_entries e (AList.delete (filename info) (pdf_files s)))
                  (AList.delete doc_id (documents s)))"
    by (simp add: del rebuild_vector_store_store)
qed

theorem delete_document_result_witness:
  "map_of (documents example_processor) (lit ''d1'') = Some (example_info ''a.pdf'' 1) \<and>
   lit ''zz'' \<notin> fst ` set (documents example_processor) \<and>
   delete_document (example_env Call_Raises) (lit ''zz'') example_processor = (False, example_processor) \<and>
   fst (delete_document (example_env Call_Raises) (lit ''d1'') example_processor) \<and>
   map_of (pdf_files (snd (delete_document (example_env Call_Raises) (lit ''d1'') example_processor)))
     (filename (example_info ''a.pdf'' 1)) = None \<and>
   lit ''d1'' \<notin> fst ` set (documents (snd (delete_document (example_env Call_Raises) (lit ''d1'')
                                           example_processor)))"
proof -
  have k: "map_of (documents example_processor) (lit ''d1'') = Some (example_info ''a.pdf'' 1)"
    by (simp add: example_processor_def)
  have u: "lit ''zz'' \<notin> fst ` set (documents example_processor)"
    by (simp add: example_processor_def lit_def)
  from delete_document_result [of "example_env Call_Raises" "lit ''zz''" example_processor] u
  have "delete_document (example_env Call_Raises) (lit ''zz'') example_processor =
      (False, example_processor)"
    by (simp add: prod_eq_iff)
  moreover
  from delete_document_result [of "example_env Call_Raises" "lit ''d1''" example_processor] k
  have "fst (delete_document (example_env Call_Raises) (lit ''d1'') example_processor) \<and>
    map_of (pdf_files (snd (delete_document (example_env Call_Raises) (lit ''d1'') example_processor)))
      (filename (example_info ''a.pdf'' 1)) = None \<and>
    lit ''d1'' \<notin> fst ` set (documents (snd (delete_document (example_env Call_Raises) (lit ''d1'')
                                           example_processor)))"
    by blast
  ultimately show ?thesis
    using k u by blast
qed

text \<open>
  C9. With the document ids distinct, as the keys of a dictionary are, and the external
  collaborators deterministic, a second \<open>_rebuild_vector_store\<close> gives the state the first
  one gave; in particular every document has the same chunk count.
\<close>

theorem rebuild_vector_store_idempotent:
  assumes "distinct (map fst (documents s))"
  shows "rebuild_vector_store e (rebuild_vector_store e s) = rebuild_vector_store e s \<and>
         map (\<lambda>item. (fst item, chunk_count (snd item)))
             (documents (rebuild_vector_store e (rebuild_vector_store e s))) =
         map (\<lambda>item. (fst item, chunk_count (snd item))) (documents (rebuild_vector_store e s))"
proof -
  let ?s = "rebuild_vector_store e s"
  have dist: "distinct (map fst (documents ?s))"
    using assms by (simp add: rebuild_vector_store_keys)
  have files: "pdf_files ?s = pdf_files s"
    by (simp add: rebuild_vector_store_frame)
  have docs1: "documents ?s = map (refreshed_info e (pdf_files s)) (documents s)"
    using assms by (rule rebuild_vector_store_documents)
  have docs2: "documents (rebuild_vector_store e ?s) = documents ?s"
    using rebuild_vector_store_documents [OF dist, of e]
    by (simp add: files docs1 refreshed_info_idem)
  have store2: "vector_store (rebuild_vector_store e ?s) = vector_store ?s"
    by (simp add: rebuild_vector_store_store files docs1 o_def rebuilt_entries_refreshed)
  have "rebuild_vector_store e ?s = ?s"
    using docs2 store2 rebuild_vector_store_frame [of e ?s] rebuild_vector_store_frame [of e s]
    by (intro processor.equality) simp_all
  then show ?thesis by simp
qed

theorem rebuild_vector_store_idempotent_witness:
  "distinct (map fst (documents unindexed_processor)) \<and>
   map (\<lambda>item. (fst item, chunk_count (snd item))) (documents unindexed_processor) = [(lit ''d1'', 3)] \<and>
   map (\<lambda>item. (fst item, chunk_count (snd item)))
     (documents (rebuild_vector_store (example_env Call_Raises)
        (rebuild_vector_store (example_env Call_Raises) unindexed_processor))) = [(lit ''d1'', 1)]"
proof -
  have d: "distinct (map fst (documents unindexed_processor))"
    by (simp add: unindexed_processor_def stale_metadata_def)
  have b: "map (\<lambda>item. (fst item, chunk_count (snd item))) (documents unindexed_processor) =
      [(lit ''d1'', 3)]"
    by (simp add: unindexed_processor_def stale_metadata_def example_info_def)
  have o: "map (\<lambda>item. (fst item, chunk_count (snd item)))
      (documents (rebuild_vector_store (example_env Call_Raises) unindexed_processor)) = [(lit ''d1'', 1)]"
    by (simp add: example_rebuild_unindexed example_info_def)
  from rebuild_vector_store_idempotent [OF d, of "example_env Call_Raises"] d b o
  show ?thesis by simp
qed

text \<open>
  C10. When the call of the remote model fails, the chatbot, and so its chat history, is
  exactly as before. The history differs afterwards only if the search gave results and
  the model returned a text, and then it is the old history with the user and assistant
  entries appended, cut to its last 20 entries.
\<close>

theorem generate_response_history:
  "((\<forall>t. generate_content e (model_name cb) (rag_prompt (fst (search_documents e query k dp)) query) \<noteq> Text t)
      \<longrightarrow> fst (snd (generate_response e query k dp cb)) = cb) \<and>
   (chat_history (fst (snd (generate_response e query k dp cb))) \<noteq> chat_history cb \<longrightarrow>
      fst (search_documents e query k dp) \<noteq> [] \<and>
      (\<exists>t. generate_content e (model_name cb) (rag_prompt (fst (search_documents e query k dp)) query) = Text t \<and>
           chat_history (fst (snd (generate_response e query k dp cb))) =
             limit_history (chat_history cb @ [\<lparr>role = lit ''user'', content = query\<rparr>,
                                              \<lparr>role = lit ''assistant'', content = t\<rparr>])))"
  by (auto simp: generate_response_def case_prod_beta Let_def split: llm_outcome.splits)

theorem generate_response_history_witness:
  "fst (search_documents (example_env Call_Raises) (lit ''q'') 2 example_processor) \<noteq> [] \<and>
   (\<forall>t. generate_content (example_env Call_Raises) (model_name new_chatbot)
          (rag_prompt (fst (search_documents (example_env Call_Raises) (lit ''q'') 2 example_processor))
             (lit ''q'')) \<noteq> Text t) \<and>
   fst (snd (generate_response (example_env Call_Raises) (lit ''q'') 2 example_processor new_chatbot)) =
     new_chatbot \<and>
   chat_history
     (fst (snd (generate_response (example_env (Text (lit ''hi''))) (lit ''q'') 2 example_processor
                  new_chatbot))) =
     [\<lparr>role = lit ''user'', content = lit ''q''\<rparr>, \<lparr>role = lit ''assistant'', content = lit ''hi''\<rparr>]"
proof -
  have n: "fst (search_documents (example_env Call_Raises) (lit ''q'') 2 example_processor) \<noteq> []"
    by (simp add: example_search_2)
  have g: "generate_content (example_env llm) m p = llm" for llm m p
    by (simp add: example_env_def)
  have ok: "chat_history
     (fst (snd (generate_response (example_env (Text (lit ''hi''))) (lit ''q'') 2 example_processor
                  new_chatbot))) =
     [\<lparr>role = lit ''user'', content = lit ''q''\<rparr>, \<lparr>role = lit ''assistant'', content = lit ''hi''\<rparr>]"
    by (simp add: generate_response_def example_search_2 g limit_history_def new_chatbot_def)
  from generate_response_history
    [of "example_env Call_Raises" new_chatbot "lit ''q''" 2 example_processor] n g ok
  show ?thesis by simp
qed

end
